theory Spec2Isabelle
  imports Main
begin

section \<open>JavaScript values\<close>

text \<open>
  The values an entity property can hold. An object carries its identity (a reference)
  besides its own data properties, since \<^verbatim>\<open>===\<close> compares objects by reference and
  primitives by value. Numbers are integers plus \<^verbatim>\<open>NaN\<close>, the one number that is not
  strictly equal to itself.
\<close>

datatype jsval =
    JUndefined
  | JNull
  | JBool bool
  | JNum int
  | JNaN
  | JStr string
  | JObj nat "(string \<times> jsval) list"

text \<open>\<^verbatim>\<open>a === b\<close>\<close>

fun strict_eq :: "jsval \<Rightarrow> jsval \<Rightarrow> bool" where
  "strict_eq JUndefined JUndefined = True"
| "strict_eq JNull JNull = True"
| "strict_eq (JBool a) (JBool b) = (a = b)"
| "strict_eq (JNum a) (JNum b) = (a = b)"
| "strict_eq (JStr a) (JStr b) = (a = b)"
| "strict_eq (JObj a ps) (JObj b qs) = (a = b)"
| "strict_eq _ _ = False"

text \<open>\<^verbatim>\<open>!!v\<close>\<close>

fun truthy :: "jsval \<Rightarrow> bool" where
  "truthy JUndefined = False"
| "truthy JNull = False"
| "truthy (JBool b) = b"
| "truthy (JNum n) = (n \<noteq> 0)"
| "truthy JNaN = False"
| "truthy (JStr s) = (s \<noteq> [])"
| "truthy (JObj a ps) = True"

text \<open>
  Comparison by value, as the specification words it for composite identifiers: two
  objects are equal when they list the same property names with equal values, whatever
  their references. It is the specification's notion, not the one the code computes
  (that is \<open>strict_eq\<close>).
\<close>

fun spec_value_eq :: "jsval \<Rightarrow> jsval \<Rightarrow> bool"
  and spec_value_eq_props :: "(string \<times> jsval) list \<Rightarrow> (string \<times> jsval) list \<Rightarrow> bool" where
  "spec_value_eq (JObj a ps) (JObj b qs) = spec_value_eq_props ps qs"
| "spec_value_eq JUndefined JUndefined = True"
| "spec_value_eq JNull JNull = True"
| "spec_value_eq (JBool a) (JBool b) = (a = b)"
| "spec_value_eq (JNum a) (JNum b) = (a = b)"
| "spec_value_eq (JStr a) (JStr b) = (a = b)"
| "spec_value_eq _ _ = False"
| "spec_value_eq_props [] [] = True"
| "spec_value_eq_props (p # ps) (q # qs) =
     (fst p = fst q \<and> spec_value_eq (snd p) (snd q) \<and> spec_value_eq_props ps qs)"
| "spec_value_eq_props _ _ = False"

section \<open>Errors\<close>

text \<open>
  Every \<^verbatim>\<open>throw\<close> of \<^verbatim>\<open>Subject.ts\<close> is a value; the three errors of
  \<^verbatim>\<open>validate\<close> carry the entity name their message prints. \<open>TypeError\<close> is what the
  runtime raises on a property read from \<^verbatim>\<open>null\<close> or \<^verbatim>\<open>undefined\<close>.
\<close>

datatype error =
    PersistEntityNotSet
  | DatabaseEntityNotSet
  | TypeError
  | RemovedAlsoInserted string
  | RemovedAlsoUpdated string
  | InsertedAlsoUpdated string

definition bindE :: "error + 'a \<Rightarrow> ('a \<Rightarrow> error + 'b) \<Rightarrow> error + 'b" where
  "bindE m f = (case m of Inl e \<Rightarrow> Inl e | Inr x \<Rightarrow> f x)"

text \<open>
  \<^verbatim>\<open>Array.prototype.filter\<close> with a callback that may throw: the elements are visited
  in order and the first exception ends the call.
\<close>

fun filterE :: "('a \<Rightarrow> error + bool) \<Rightarrow> 'a list \<Rightarrow> error + 'a list" where
  "filterE p [] = Inr []"
| "filterE p (x # xs) =
     bindE (p x) (\<lambda>b. bindE (filterE p xs) (\<lambda>ys. Inr (if b then x # ys else ys)))"

section \<open>Metadata\<close>

text \<open>
  \<^verbatim>\<open>ColumnMetadata\<close>, \<^verbatim>\<open>RelationMetadata\<close>, \<^verbatim>\<open>EntityMetadata\<close> and \<^verbatim>\<open>ColumnTypes\<close>
  are imported by \<^verbatim>\<open>Subject.ts\<close>; the records hold the members it reads. The field names
  of the relation and of the entity metadata are prefixed because a record field is a
  global name: \<open>relationPropertyName\<close> is \<^verbatim>\<open>relation.propertyName\<close>, \<open>relationName\<close> is
  \<^verbatim>\<open>relation.name\<close>, \<open>columnType\<close> is \<^verbatim>\<open>column.type\<close>, \<open>metadataName\<close> is
  \<^verbatim>\<open>metadata.name\<close>.
\<close>

text \<open>
  Modelled from the spec: the semantic type tag of a column, whose declaration
  (\<^verbatim>\<open>ColumnTypes\<close>) is not among the sources. The first five are the constants
  \<^verbatim>\<open>buildDiffColumns\<close> compares \<^verbatim>\<open>column.type\<close> with; \<open>OTHER_TYPE\<close> is any other type.
\<close>

datatype ColumnTypes = DATE | TIME | DATETIME | JSON | SIMPLE_ARRAY | OTHER_TYPE

record ColumnMetadata =
  propertyName :: string
  columnType :: ColumnTypes
  loadInLocalTimezone :: bool
  isInEmbedded :: bool
  embeddedProperty :: string
  isVirtual :: bool
  isParentId :: bool
  isDiscriminator :: bool
  isUpdateDate :: bool
  isVersion :: bool
  isCreateDate :: bool

text \<open>
  Modelled from the spec: the cardinality flags of \<^verbatim>\<open>RelationMetadata\<close>
  (\<^verbatim>\<open>isManyToOne\<close>, \<^verbatim>\<open>isOneToOne\<close>, \<^verbatim>\<open>isOneToMany\<close>, \<^verbatim>\<open>isManyToMany\<close>), whose
  declaration is not among the sources. A relation has one cardinality, so the flags are
  read off one field.
\<close>

datatype RelationTypes = ONE_TO_ONE | ONE_TO_MANY | MANY_TO_ONE | MANY_TO_MANY

record RelationMetadata =
  relationPropertyName :: string
  relationName :: string
  relationType :: RelationTypes
  isOwning :: bool

definition isManyToOne :: "RelationMetadata \<Rightarrow> bool" where
  "isManyToOne r = (relationType r = MANY_TO_ONE)"

definition isOneToOne :: "RelationMetadata \<Rightarrow> bool" where
  "isOneToOne r = (relationType r = ONE_TO_ONE)"

definition isOneToMany :: "RelationMetadata \<Rightarrow> bool" where
  "isOneToMany r = (relationType r = ONE_TO_MANY)"

definition isManyToMany :: "RelationMetadata \<Rightarrow> bool" where
  "isManyToMany r = (relationType r = MANY_TO_MANY)"

record EntityMetadata =
  metadataName :: string
  allColumns :: "ColumnMetadata list"
  allRelations :: "RelationMetadata list"

section \<open>What the diff calls and the sources do not hold\<close>

text \<open>
  \<^verbatim>\<open>Subject.ts\<close> calls methods of the metadata classes, of
  \<^verbatim>\<open>DataTransformationUtils\<close> and of the runtime (\<^verbatim>\<open>JSON.stringify\<close>) whose bodies
  are not among the sources. They are parameters of the model: every theorem below holds
  for whatever these functions compute.
  \<^item> \<open>getEntityValue c e\<close> is \<^verbatim>\<open>column.getEntityValue(e)\<close>;
  \<^item> \<open>findRelationWithDbName m n\<close> is the relation \<^verbatim>\<open>metadata.findRelationWithDbName(n)\<close>
    returns, and \<open>None\<close> when \<^verbatim>\<open>metadata.hasRelationWithDbName(n)\<close> is false;
  \<^item> \<open>getEntityIdMixedMap r v\<close> is
    \<^verbatim>\<open>relation.inverseEntityMetadata.getEntityIdMixedMap(v)\<close>;
  \<^item> \<open>hasObjectPrototype v\<close> tells whether \<^verbatim>\<open>Object.prototype\<close> is in the prototype chain
    of the object \<open>v\<close> (it is not for one made by \<^verbatim>\<open>Object.create(null)\<close>);
  \<^item> \<open>builtinMember v k\<close> is what the read \<^verbatim>\<open>v[k]\<close> finds when \<open>v\<close> has no own data
    property \<open>k\<close>: a member inherited through the prototype chain or built into a
    primitive, \<^verbatim>\<open>undefined\<close> when there is none.
\<close>

record externals =
  getEntityValue :: "ColumnMetadata \<Rightarrow> jsval \<Rightarrow> jsval"
  mixedDateToDateString :: "jsval \<Rightarrow> jsval"
  mixedDateToTimeString :: "jsval \<Rightarrow> jsval"
  mixedDateToDatetimeString :: "jsval \<Rightarrow> jsval"
  mixedDateToUtcDatetimeString :: "jsval \<Rightarrow> jsval"
  simpleArrayToString :: "jsval \<Rightarrow> jsval"
  JSON_stringify :: "jsval \<Rightarrow> jsval"
  findRelationWithDbName :: "EntityMetadata \<Rightarrow> string \<Rightarrow> RelationMetadata option"
  getEntityIdMixedMap :: "RelationMetadata \<Rightarrow> jsval \<Rightarrow> jsval"
  hasObjectPrototype :: "jsval \<Rightarrow> bool"
  builtinMember :: "jsval \<Rightarrow> string \<Rightarrow> jsval"

definition hasRelationWithDbName :: "externals \<Rightarrow> EntityMetadata \<Rightarrow> string \<Rightarrow> bool" where
  "hasRelationWithDbName ext m n = (findRelationWithDbName ext m n \<noteq> None)"

text \<open>\<^verbatim>\<open>v instanceof Object\<close>: false for every primitive.\<close>

fun instanceofObject :: "externals \<Rightarrow> jsval \<Rightarrow> bool" where
  "instanceofObject ext (JObj a ps) = hasObjectPrototype ext (JObj a ps)"
| "instanceofObject ext _ = False"

text \<open>The own data property \<open>k\<close> of a value, if it has one.\<close>

fun ownProperty :: "jsval \<Rightarrow> string \<Rightarrow> jsval option" where
  "ownProperty (JObj a ps) k = map_of ps k"
| "ownProperty _ k = None"

text \<open>The read \<^verbatim>\<open>v[k]\<close> of a value that is neither \<^verbatim>\<open>null\<close> nor \<^verbatim>\<open>undefined\<close>.\<close>

definition readProp :: "externals \<Rightarrow> jsval \<Rightarrow> string \<Rightarrow> jsval" where
  "readProp ext v k =
     (case ownProperty v k of Some x \<Rightarrow> x | None \<Rightarrow> builtinMember ext v k)"

text \<open>The read \<^verbatim>\<open>v[k]\<close> of any value: a \<^verbatim>\<open>TypeError\<close> on \<^verbatim>\<open>null\<close> and \<^verbatim>\<open>undefined\<close>.\<close>

definition get_prop :: "externals \<Rightarrow> jsval \<Rightarrow> string \<Rightarrow> error + jsval" where
  "get_prop ext v k =
     (if v = JUndefined \<or> v = JNull then Inl TypeError else Inr (readProp ext v k))"

section \<open>Subject\<close>

text \<open>
  The class \<^verbatim>\<open>Subject\<close>. \<open>persistEntity\<close> and \<open>databaseEntity_field\<close> are the private
  \<^verbatim>\<open>_persistEntity\<close> and \<^verbatim>\<open>_databaseEntity\<close>; an entity that was not set is
  \<^verbatim>\<open>undefined\<close>.
\<close>

record Subject =
  persistEntity :: jsval
  databaseEntity_field :: jsval
  metadata :: EntityMetadata
  date :: int
  canBeInserted :: bool
  canBeUpdated :: bool
  mustBeRemoved :: bool
  diffColumns :: "ColumnMetadata list"
  diffRelations :: "RelationMetadata list"
  relationUpdates :: "(RelationMetadata \<times> jsval) list"
  junctionInserts :: "(RelationMetadata \<times> jsval list) list"
  junctionRemoves :: "(RelationMetadata \<times> jsval list) list"
  newlyGeneratedId :: jsval
  parentGeneratedId :: jsval
  treeLevel :: "int option"

definition entity :: "Subject \<Rightarrow> error + jsval" where
  "entity s =
     (if \<not> truthy (persistEntity s) then Inl PersistEntityNotSet else Inr (persistEntity s))"

definition hasEntity :: "Subject \<Rightarrow> bool" where
  "hasEntity s = truthy (persistEntity s)"

definition databaseEntity :: "Subject \<Rightarrow> error + jsval" where
  "databaseEntity s =
     (if \<not> truthy (databaseEntity_field s) then Inl DatabaseEntityNotSet
      else Inr (databaseEntity_field s))"

definition hasDatabaseEntity :: "Subject \<Rightarrow> bool" where
  "hasDatabaseEntity s = truthy (databaseEntity_field s)"

definition mustBeInserted :: "Subject \<Rightarrow> bool" where
  "mustBeInserted s = (canBeInserted s \<and> \<not> hasDatabaseEntity s)"

definition mustBeUpdated :: "Subject \<Rightarrow> bool" where
  "mustBeUpdated s =
     (canBeUpdated s \<and> (length (diffColumns s) > 0 \<or> length (diffRelations s) > 0))"

definition hasRelationUpdates :: "Subject \<Rightarrow> bool" where
  "hasRelationUpdates s = (length (relationUpdates s) > 0)"

text \<open>
  \<^verbatim>\<open>validate()\<close>: the outcome (the error thrown, if any) and the subject afterwards.
  The method assigns nothing.
\<close>

definition validate :: "Subject \<Rightarrow> error option \<times> Subject" where
  "validate s =
     (if mustBeInserted s \<and> mustBeRemoved s
        then (Some (RemovedAlsoInserted (metadataName (metadata s))), s)
      else if mustBeUpdated s \<and> mustBeRemoved s
        then (Some (RemovedAlsoUpdated (metadataName (metadata s))), s)
      else if mustBeInserted s \<and> mustBeUpdated s
        then (Some (InsertedAlsoUpdated (metadataName (metadata s))), s)
      else (None, s))"

section \<open>The column diff\<close>

text \<open>
  Lines 312 to 337 of \<^verbatim>\<open>buildDiffColumns\<close>: the two values after "normalize special
  values to make proper comparision", entity side first.
\<close>

definition normalizeValues ::
  "externals \<Rightarrow> ColumnMetadata \<Rightarrow> jsval \<Rightarrow> jsval \<Rightarrow> jsval \<times> jsval" where
  "normalizeValues ext column entityValue databaseValue =
     (if entityValue \<noteq> JNull \<and> entityValue \<noteq> JUndefined then
        if columnType column = DATE then
          (mixedDateToDateString ext entityValue, databaseValue)
        else if columnType column = TIME then
          (mixedDateToTimeString ext entityValue, databaseValue)
        else if columnType column = DATETIME then
          (if loadInLocalTimezone column
           then (mixedDateToDatetimeString ext entityValue,
                 mixedDateToDatetimeString ext databaseValue)
           else (mixedDateToUtcDatetimeString ext entityValue,
                 mixedDateToUtcDatetimeString ext databaseValue))
        else if columnType column = JSON then
          (JSON_stringify ext entityValue,
           if databaseValue \<noteq> JNull \<and> databaseValue \<noteq> JUndefined
           then JSON_stringify ext databaseValue else databaseValue)
        else if columnType column = SIMPLE_ARRAY then
          (simpleArrayToString ext entityValue, simpleArrayToString ext databaseValue)
        else (entityValue, databaseValue)
      else (entityValue, databaseValue))"

text \<open>
  Line 340: \<^verbatim>\<open>!column.isInEmbedded && this.entity[column.propertyName] === undefined\<close>.
\<close>

definition plainNotDefined :: "externals \<Rightarrow> jsval \<Rightarrow> ColumnMetadata \<Rightarrow> error + bool" where
  "plainNotDefined ext e column =
     (if \<not> isInEmbedded column
      then bindE (get_prop ext e (propertyName column)) (\<lambda>v. Inr (v = JUndefined))
      else Inr False)"

text \<open>
  Line 344: the embedded object is read first; the read inside it is made only when the
  embedded object is not \<^verbatim>\<open>undefined\<close>, and throws when it is \<^verbatim>\<open>null\<close>.
\<close>

definition embeddedNotDefined :: "externals \<Rightarrow> jsval \<Rightarrow> ColumnMetadata \<Rightarrow> error + bool" where
  "embeddedNotDefined ext e column =
     (if isInEmbedded column
      then bindE (get_prop ext e (embeddedProperty column)) (\<lambda>embedded.
             if embedded = JUndefined then Inr True
             else bindE (get_prop ext embedded (propertyName column)) (\<lambda>v.
                    Inr (v = JUndefined)))
      else Inr False)"

text \<open>The callback of the filter in \<^verbatim>\<open>buildDiffColumns\<close>.\<close>

definition diffColumnFilter :: "externals \<Rightarrow> Subject \<Rightarrow> ColumnMetadata \<Rightarrow> error + bool" where
  "diffColumnFilter ext s column =
     bindE (entity s) (\<lambda>e.
     bindE (databaseEntity s) (\<lambda>d.
       let (entityValue, databaseValue) =
             normalizeValues ext column (getEntityValue ext column e) (getEntityValue ext column d)
       in bindE (plainNotDefined ext e column) (\<lambda>notDefined.
            if notDefined then Inr False
            else bindE (embeddedNotDefined ext e column) (\<lambda>notDefined'.
            if notDefined' then Inr False
            else if isVirtual column \<or> isParentId column \<or> isDiscriminator column \<or>
                    isUpdateDate column \<or> isVersion column \<or> isCreateDate column \<or>
                    strict_eq entityValue databaseValue
              then Inr False
            else if \<not> isInEmbedded column \<and>
                    hasRelationWithDbName ext (metadata s) (propertyName column)
              then (case findRelationWithDbName ext (metadata s) (propertyName column) of
                      None \<Rightarrow> Inr True
                    | Some relation \<Rightarrow>
                        bindE (get_prop ext e (relationPropertyName relation)) (\<lambda>held.
                          if held \<noteq> JNull \<and> held \<noteq> JUndefined then Inr False
                          else Inr True))
            else Inr True))))"

definition buildDiffColumns :: "externals \<Rightarrow> Subject \<Rightarrow> error + ColumnMetadata list" where
  "buildDiffColumns ext s = filterE (diffColumnFilter ext s) (allColumns (metadata s))"

section \<open>The relation diff\<close>

text \<open>The callback of the filter in \<^verbatim>\<open>buildDiffRelationalColumns\<close>.\<close>

definition diffRelationFilter :: "externals \<Rightarrow> Subject \<Rightarrow> RelationMetadata \<Rightarrow> error + bool" where
  "diffRelationFilter ext s relation =
     (if \<not> isManyToOne relation \<and> \<not> (isOneToOne relation \<and> isOwning relation) then Inr False
      else
        bindE (entity s) (\<lambda>e.
        bindE (get_prop ext e (relationPropertyName relation)) (\<lambda>held.
          let updatedEntityRelationId =
                (if instanceofObject ext held then getEntityIdMixedMap ext relation held
                 else held)
          in bindE (databaseEntity s) (\<lambda>d.
             bindE (get_prop ext d (relationName relation)) (\<lambda>dbEntityRelationId.
               if updatedEntityRelationId = JUndefined then Inr False
               else if (updatedEntityRelationId = JUndefined \<or> updatedEntityRelationId = JNull) \<and>
                       (dbEntityRelationId = JUndefined \<or> dbEntityRelationId = JNull)
                 then Inr False
               else Inr (\<not> strict_eq updatedEntityRelationId dbEntityRelationId))))))"

definition buildDiffRelationalColumns ::
  "externals \<Rightarrow> Subject \<Rightarrow> error + RelationMetadata list" where
  "buildDiffRelationalColumns ext s =
     filterE (diffRelationFilter ext s) (allRelations (metadata s))"

section \<open>The setter of the database entity\<close>

text \<open>
  \<^verbatim>\<open>set databaseEntity(databaseEntity)\<close>: the outcome (the error thrown, if any) and
  the subject afterwards. An exception of a diff leaves the assignments made before it.
\<close>

definition set_databaseEntity ::
  "externals \<Rightarrow> Subject \<Rightarrow> jsval \<Rightarrow> error option \<times> Subject" where
  "set_databaseEntity ext s databaseEntity' =
     (let s1 = s\<lparr>databaseEntity_field := databaseEntity'\<rparr> in
      if hasEntity s1 \<and> truthy databaseEntity' then
        (case buildDiffColumns ext s1 of
           Inl err \<Rightarrow> (Some err, s1)
         | Inr columns \<Rightarrow>
             (let s2 = s1\<lparr>diffColumns := columns\<rparr> in
              case buildDiffRelationalColumns ext s2 of
                Inl err \<Rightarrow> (Some err, s2)
              | Inr relations \<Rightarrow> (None, s2\<lparr>diffRelations := relations\<rparr>)))
      else (None, s1))"

section \<open>The conditions of the diffs, as predicates\<close>

text \<open>
  The conditions of the specification, on a desired entity \<open>e\<close> and a database entity
  \<open>d\<close> that are set. They are used to state the theorems; the functions above do not
  use them.
\<close>

definition nullish :: "jsval \<Rightarrow> bool" where
  "nullish v = (v = JNull \<or> v = JUndefined)"

definition systemManaged :: "ColumnMetadata \<Rightarrow> bool" where
  "systemManaged c =
     (isVirtual c \<or> isParentId c \<or> isDiscriminator c \<or>
      isUpdateDate c \<or> isVersion c \<or> isCreateDate c)"

text \<open>The embedded object of an embedded column is \<^verbatim>\<open>null\<close> on the entity.\<close>

definition embeddedIsNull :: "externals \<Rightarrow> jsval \<Rightarrow> ColumnMetadata \<Rightarrow> bool" where
  "embeddedIsNull ext e c = (isInEmbedded c \<and> readProp ext e (embeddedProperty c) = JNull)"

text \<open>The raw value of the column is resolvable on the entity.\<close>

definition valueDefined :: "externals \<Rightarrow> jsval \<Rightarrow> ColumnMetadata \<Rightarrow> bool" where
  "valueDefined ext e c =
     (if isInEmbedded c
      then readProp ext e (embeddedProperty c) \<noteq> JUndefined \<and>
           readProp ext e (embeddedProperty c) \<noteq> JNull \<and>
           readProp ext (readProp ext e (embeddedProperty c)) (propertyName c) \<noteq> JUndefined
      else readProp ext e (propertyName c) \<noteq> JUndefined)"

text \<open>The two values of the column are strictly equal after normalization.\<close>

definition normalizedEqual :: "externals \<Rightarrow> ColumnMetadata \<Rightarrow> jsval \<Rightarrow> jsval \<Rightarrow> bool" where
  "normalizedEqual ext c e d =
     strict_eq (fst (normalizeValues ext c (getEntityValue ext c e) (getEntityValue ext c d)))
               (snd (normalizeValues ext c (getEntityValue ext c e) (getEntityValue ext c d)))"

text \<open>
  The column is not embedded, its name is the database name of a relation, and the entity
  holds a value other than \<^verbatim>\<open>null\<close> and \<^verbatim>\<open>undefined\<close> at the property of that
  relation.
\<close>

definition relationValueHeld ::
  "externals \<Rightarrow> EntityMetadata \<Rightarrow> jsval \<Rightarrow> ColumnMetadata \<Rightarrow> bool" where
  "relationValueHeld ext m e c =
     (\<not> isInEmbedded c \<and>
      (case findRelationWithDbName ext m (propertyName c) of
         None \<Rightarrow> False
       | Some r \<Rightarrow> \<not> nullish (readProp ext e (relationPropertyName r))))"


definition columnDiffers :: "externals \<Rightarrow> Subject \<Rightarrow> ColumnMetadata \<Rightarrow> bool" where
  "columnDiffers ext s c =
     (valueDefined ext (persistEntity s) c \<and> \<not> systemManaged c \<and>
      \<not> normalizedEqual ext c (persistEntity s) (databaseEntity_field s) \<and>
      \<not> relationValueHeld ext (metadata s) (persistEntity s) c)"

text \<open>
  The identifier on the desired side: the mixed identifier of the nested object, or the
  raw value of the property.
\<close>

definition desiredRelationId :: "externals \<Rightarrow> jsval \<Rightarrow> RelationMetadata \<Rightarrow> jsval" where
  "desiredRelationId ext e r =
     (if instanceofObject ext (readProp ext e (relationPropertyName r))
      then getEntityIdMixedMap ext r (readProp ext e (relationPropertyName r))
      else readProp ext e (relationPropertyName r))"

definition databaseRelationId :: "externals \<Rightarrow> jsval \<Rightarrow> RelationMetadata \<Rightarrow> jsval" where
  "databaseRelationId ext d r = readProp ext d (relationName r)"

definition diffedKind :: "RelationMetadata \<Rightarrow> bool" where
  "diffedKind r = (isManyToOne r \<or> (isOneToOne r \<and> isOwning r))"

definition relationDiffers :: "externals \<Rightarrow> Subject \<Rightarrow> RelationMetadata \<Rightarrow> bool" where
  "relationDiffers ext s r =
     (diffedKind r \<and>
      desiredRelationId ext (persistEntity s) r \<noteq> JUndefined \<and>
      \<not> (nullish (desiredRelationId ext (persistEntity s) r) \<and>
         nullish (databaseRelationId ext (databaseEntity_field s) r)) \<and>
      \<not> strict_eq (desiredRelationId ext (persistEntity s) r)
                  (databaseRelationId ext (databaseEntity_field s) r))"

section \<open>A post, its counters and its author\<close>

text \<open>
  A concrete unit of work, after the entity of the functional test
  \<^verbatim>\<open>embedded.ts\<close>: a post with embedded counters, to which a version, a publication
  time, a many-to-one author with its foreign-key column, the one-to-many comments and a
  one-to-one editor with a two-column key are added. The parameters are instantiated by
  simple functions: values are read as own properties, every object has
  \<^verbatim>\<open>Object.prototype\<close> in its chain, the date helpers know the two
  spellings of one instant (ten o'clock at one hour east of Greenwich, the local
  timezone of the sample), an author is identified by its \<^verbatim>\<open>id\<close> and an editor by a
  newly built map of its two names.
\<close>

definition plainColumn :: "string \<Rightarrow> ColumnMetadata" where
  "plainColumn n =
     \<lparr>propertyName = n, columnType = OTHER_TYPE, loadInLocalTimezone = False,
      isInEmbedded = False, embeddedProperty = [], isVirtual = False, isParentId = False,
      isDiscriminator = False, isUpdateDate = False, isVersion = False,
      isCreateDate = False\<rparr>"

definition titleColumn :: ColumnMetadata where
  "titleColumn = plainColumn ''title''"

definition favoritesColumn :: ColumnMetadata where
  "favoritesColumn =
     (plainColumn ''favorites'')\<lparr>isInEmbedded := True, embeddedProperty := ''counters''\<rparr>"

definition likesColumn :: ColumnMetadata where
  "likesColumn =
     (plainColumn ''likes'')\<lparr>isInEmbedded := True, embeddedProperty := ''counters''\<rparr>"

definition versionColumn :: ColumnMetadata where
  "versionColumn = (plainColumn ''version'')\<lparr>isVersion := True\<rparr>"

definition publishedColumn :: ColumnMetadata where
  "publishedColumn = (plainColumn ''publishedAt'')\<lparr>columnType := DATETIME\<rparr>"

definition authorIdColumn :: ColumnMetadata where
  "authorIdColumn = plainColumn ''authorId''"

definition authorRelation :: RelationMetadata where
  "authorRelation =
     \<lparr>relationPropertyName = ''author'', relationName = ''authorId'',
      relationType = MANY_TO_ONE, isOwning = True\<rparr>"

definition commentsRelation :: RelationMetadata where
  "commentsRelation =
     \<lparr>relationPropertyName = ''comments'', relationName = ''comments'',
      relationType = ONE_TO_MANY, isOwning = False\<rparr>"

definition editorRelation :: RelationMetadata where
  "editorRelation =
     \<lparr>relationPropertyName = ''editor'', relationName = ''editor'',
      relationType = ONE_TO_ONE, isOwning = True\<rparr>"

definition postMetadata :: EntityMetadata where
  "postMetadata =
     \<lparr>metadataName = ''Post'',
      allColumns = [titleColumn, favoritesColumn, likesColumn, versionColumn,
                    publishedColumn, authorIdColumn],
      allRelations = [authorRelation, commentsRelation]\<rparr>"

definition editedPostMetadata :: EntityMetadata where
  "editedPostMetadata =
     \<lparr>metadataName = ''Post'', allColumns = [titleColumn], allRelations = [editorRelation]\<rparr>"

definition own :: "jsval \<Rightarrow> string \<Rightarrow> jsval" where
  "own v k = (case ownProperty v k of Some x \<Rightarrow> x | None \<Rightarrow> JUndefined)"

definition sampleEntityValue :: "ColumnMetadata \<Rightarrow> jsval \<Rightarrow> jsval" where
  "sampleEntityValue c e =
     (if isInEmbedded c
      then (if nullish (own e (embeddedProperty c)) then JUndefined
            else own (own e (embeddedProperty c)) (propertyName c))
      else own e (propertyName c))"

definition sampleUtc :: "jsval \<Rightarrow> jsval" where
  "sampleUtc v =
     (if v = JStr ''2017-03-01T10:00:00+01:00'' \<or> v = JStr ''2017-03-01T09:00:00Z''
      then JStr ''2017-03-01 09:00:00'' else v)"

definition sampleLocal :: "jsval \<Rightarrow> jsval" where
  "sampleLocal v =
     (if v = JStr ''2017-03-01T10:00:00+01:00'' \<or> v = JStr ''2017-03-01T09:00:00Z''
      then JStr ''2017-03-01 10:00:00'' else v)"

definition sampleDate :: "jsval \<Rightarrow> jsval" where
  "sampleDate v = (if v = JStr ''2017-03-01T10:00:00+01:00'' then JStr ''2017-03-01'' else v)"

definition sampleTime :: "jsval \<Rightarrow> jsval" where
  "sampleTime v = (if v = JStr ''2017-03-01T10:00:00+01:00'' then JStr ''10:00:00'' else v)"

definition sampleIdMixedMap :: "RelationMetadata \<Rightarrow> jsval \<Rightarrow> jsval" where
  "sampleIdMixedMap r v =
     (if relationPropertyName r = ''editor''
      then JObj 900 [(''firstName'', own v ''firstName''), (''lastName'', own v ''lastName'')]
      else own v ''id'')"

definition sampleExt :: externals where
  "sampleExt =
     \<lparr>getEntityValue = sampleEntityValue,
      mixedDateToDateString = sampleDate,
      mixedDateToTimeString = sampleTime,
      mixedDateToDatetimeString = sampleLocal,
      mixedDateToUtcDatetimeString = sampleUtc,
      simpleArrayToString = (\<lambda>v. v),
      JSON_stringify = (\<lambda>v. v),
      findRelationWithDbName = (\<lambda>m n. find (\<lambda>r. relationName r = n) (allRelations m)),
      getEntityIdMixedMap = sampleIdMixedMap,
      hasObjectPrototype = (\<lambda>v. True),
      builtinMember = (\<lambda>v k. JUndefined)\<rparr>"

definition newSubject :: "EntityMetadata \<Rightarrow> jsval \<Rightarrow> jsval \<Rightarrow> Subject" where
  "newSubject m e d =
     \<lparr>persistEntity = e, databaseEntity_field = d, metadata = m, date = 0,
      canBeInserted = False, canBeUpdated = False, mustBeRemoved = False,
      diffColumns = [], diffRelations = [], relationUpdates = [], junctionInserts = [],
      junctionRemoves = [], newlyGeneratedId = JUndefined, parentGeneratedId = JUndefined,
      treeLevel = None\<rparr>"

definition desiredPost :: jsval where
  "desiredPost =
     JObj 1 [(''title'', JStr ''Hello post''),
             (''counters'', JObj 2 [(''comments'', JNum 5), (''favorites'', JNum 3),
                                    (''likes'', JNum 1)]),
             (''version'', JNum 2),
             (''publishedAt'', JStr ''2017-03-01T10:00:00+01:00''),
             (''authorId'', JNum 7),
             (''author'', JNum 5)]"

definition storedPost :: jsval where
  "storedPost =
     JObj 3 [(''title'', JStr ''Hello post''),
             (''counters'', JObj 4 [(''comments'', JNum 5), (''favorites'', JNum 2),
                                    (''likes'', JNum 1)]),
             (''version'', JNum 1),
             (''publishedAt'', JStr ''2017-03-01T09:00:00Z''),
             (''authorId'', JNum 3)]"

definition editedPost :: jsval where
  "editedPost =
     JObj 10 [(''title'', JStr ''Hello post''),
              (''editor'', JObj 11 [(''firstName'', JStr ''Ada''),
                                    (''lastName'', JStr ''Lovelace'')])]"

definition storedEditedPost :: jsval where
  "storedEditedPost =
     JObj 12 [(''title'', JStr ''Hello post''),
              (''editor'', JObj 13 [(''firstName'', JStr ''Ada''),
                                    (''lastName'', JStr ''Lovelace'')])]"

text \<open>
  Two more desired posts: one that sets a new title and the foreign-key column and leaves
  the relation property alone, and one that changes nothing and holds its author as a
  nested object.
\<close>

definition reassignedPost :: jsval where
  "reassignedPost = JObj 20 [(''title'', JStr ''Hello again''), (''authorId'', JNum 7)]"

definition unchangedPost :: jsval where
  "unchangedPost =
     JObj 30 [(''title'', JStr ''Hello post''),
              (''counters'', JObj 31 [(''comments'', JNum 5), (''favorites'', JNum 2),
                                     (''likes'', JNum 1)]),
              (''version'', JNum 2),
              (''publishedAt'', JStr ''2017-03-01T10:00:00+01:00''),
              (''author'', JObj 32 [(''id'', JNum 3), (''name'', JStr ''Ada'')])]"

text \<open>
  An event with a date, a time and a datetime loaded in the local timezone. The stored
  hour is an hour earlier than the desired one; the other two values denote the same day
  and the same instant on both sides.
\<close>

definition dayColumn :: ColumnMetadata where
  "dayColumn = (plainColumn ''day'')\<lparr>columnType := DATE\<rparr>"

definition hourColumn :: ColumnMetadata where
  "hourColumn = (plainColumn ''hour'')\<lparr>columnType := TIME\<rparr>"

definition startsColumn :: ColumnMetadata where
  "startsColumn =
     (plainColumn ''startsAt'')\<lparr>columnType := DATETIME, loadInLocalTimezone := True\<rparr>"

definition eventMetadata :: EntityMetadata where
  "eventMetadata =
     \<lparr>metadataName = ''Event'', allColumns = [dayColumn, hourColumn, startsColumn],
      allRelations = []\<rparr>"

definition desiredEvent :: jsval where
  "desiredEvent =
     JObj 40 [(''day'', JStr ''2017-03-01T10:00:00+01:00''),
              (''hour'', JStr ''2017-03-01T10:00:00+01:00''),
              (''startsAt'', JStr ''2017-03-01T10:00:00+01:00'')]"

definition storedEvent :: jsval where
  "storedEvent =
     JObj 41 [(''day'', JStr ''2017-03-01''),
              (''hour'', JStr ''09:00:00''),
              (''startsAt'', JStr ''2017-03-01T09:00:00Z'')]"

text \<open>
  Three more desired posts: one whose embedded counters are \<^verbatim>\<open>null\<close>, one that sets the
  foreign-key column to a new value while it holds the stored author as a nested object,
  and one with a many-to-one reviewer flagged as not owning, given by its bare id.
\<close>

definition nulledPost :: jsval where
  "nulledPost = JObj 60 [(''title'', JStr ''Hello post''), (''counters'', JNull)]"

definition keptAuthorPost :: jsval where
  "keptAuthorPost =
     JObj 50 [(''title'', JStr ''Hello post''),
              (''authorId'', JNum 7),
              (''author'', JObj 51 [(''id'', JNum 3)])]"

definition reviewerRelation :: RelationMetadata where
  "reviewerRelation =
     \<lparr>relationPropertyName = ''reviewer'', relationName = ''reviewerId'',
      relationType = MANY_TO_ONE, isOwning = False\<rparr>"

definition reviewedPostMetadata :: EntityMetadata where
  "reviewedPostMetadata =
     \<lparr>metadataName = ''Post'', allColumns = [titleColumn], allRelations = [reviewerRelation]\<rparr>"

definition reviewedPost :: jsval where
  "reviewedPost = JObj 70 [(''title'', JStr ''Hello post''), (''reviewer'', JNum 8)]"

definition storedReviewedPost :: jsval where
  "storedReviewedPost = JObj 71 [(''title'', JStr ''Hello post''), (''reviewerId'', JNum 2)]"

section \<open>Basic facts\<close>

lemma bindE_Inl [simp]: "bindE (Inl e) f = Inl e"
  by (simp add: bindE_def)

lemma bindE_Inr [simp]: "bindE (Inr x) f = f x"
  by (simp add: bindE_def)

lemma filterE_Inr_iff:
  "filterE p xs = Inr ys \<longleftrightarrow>
     (\<forall>x \<in> set xs. \<exists>b. p x = Inr b) \<and> ys = filter (\<lambda>x. p x = Inr True) xs"
proof (induction xs arbitrary: ys)
  case Nil
  show ?case by auto
next
  case (Cons x xs)
  show ?case
  proof (cases "p x")
    case (Inl e)
    then show ?thesis by simp
  next
    case (Inr b)
    note px = this
    show ?thesis
    proof (cases "filterE p xs")
      case (Inl e)
      with px Cons.IH show ?thesis by auto
    next
      case (Inr zs)
      with px Cons.IH [of zs] show ?thesis by auto
    qed
  qed
qed

lemma filterE_total:
  "(\<And>x. x \<in> set xs \<Longrightarrow> p x = Inr (q x)) \<Longrightarrow> filterE p xs = Inr (filter q xs)"
  by (induction xs) simp_all

lemma filterE_first_error:
  "x \<in> set xs \<Longrightarrow> p x = Inl e \<Longrightarrow> (\<And>y. y \<in> set xs \<Longrightarrow> p y = Inl e \<or> (\<exists>b. p y = Inr b))
     \<Longrightarrow> filterE p xs = Inl e"
proof (induction xs)
  case Nil
  then show ?case by simp
next
  case (Cons a xs)
  show ?case
  proof (cases "p a")
    case (Inl e')
    with Cons.prems(3) [of a] show ?thesis by auto
  next
    case (Inr b)
    with Cons.prems have "x \<in> set xs" by auto
    with Cons have "filterE p xs = Inl e" by auto
    with Inr show ?thesis by simp
  qed
qed

lemma get_prop_truthy: "truthy v \<Longrightarrow> get_prop ext v k = Inr (readProp ext v k)"
  by (cases v) (simp_all add: get_prop_def)

lemma entity_set: "hasEntity s \<Longrightarrow> entity s = Inr (persistEntity s)"
  by (simp add: entity_def hasEntity_def)

lemma databaseEntity_set: "hasDatabaseEntity s \<Longrightarrow> databaseEntity s = Inr (databaseEntity_field s)"
  by (simp add: databaseEntity_def hasDatabaseEntity_def)

lemma plainNotDefined_truthy:
  "truthy e \<Longrightarrow> plainNotDefined ext e c =
     Inr (\<not> isInEmbedded c \<and> readProp ext e (propertyName c) = JUndefined)"
  by (simp add: plainNotDefined_def get_prop_truthy)

lemma embeddedNotDefined_truthy:
  "truthy e \<Longrightarrow> embeddedNotDefined ext e c =
     (if embeddedIsNull ext e c then Inl TypeError
      else Inr (isInEmbedded c \<and>
                (readProp ext e (embeddedProperty c) = JUndefined \<or>
                 readProp ext (readProp ext e (embeddedProperty c)) (propertyName c) = JUndefined)))"
  by (auto simp: embeddedNotDefined_def embeddedIsNull_def get_prop_truthy get_prop_def)

lemma diffColumnFilter_set:
  assumes "hasEntity s" and "hasDatabaseEntity s"
  shows "diffColumnFilter ext s c =
           (if embeddedIsNull ext (persistEntity s) c then Inl TypeError
            else Inr (columnDiffers ext s c))"
proof -
  have t: "truthy (persistEntity s)" using assms(1) by (simp add: hasEntity_def)
  show ?thesis
    using assms t
    by (auto simp: diffColumnFilter_def entity_set databaseEntity_set plainNotDefined_truthy
        embeddedNotDefined_truthy columnDiffers_def valueDefined_def systemManaged_def
        normalizedEqual_def relationValueHeld_def hasRelationWithDbName_def get_prop_truthy
        nullish_def embeddedIsNull_def split_beta
        split: option.splits)
qed

lemma diffColumnFilter_no_entity:
  "\<not> hasEntity s \<Longrightarrow> diffColumnFilter ext s c = Inl PersistEntityNotSet"
  by (simp add: diffColumnFilter_def entity_def hasEntity_def)

lemma diffColumnFilter_no_databaseEntity:
  "hasEntity s \<Longrightarrow> \<not> hasDatabaseEntity s \<Longrightarrow> diffColumnFilter ext s c = Inl DatabaseEntityNotSet"
  by (simp add: diffColumnFilter_def entity_set databaseEntity_def hasDatabaseEntity_def)

lemma diffRelationFilter_set:
  assumes "hasEntity s" and "hasDatabaseEntity s"
  shows "diffRelationFilter ext s r = Inr (relationDiffers ext s r)"
proof -
  have t: "truthy (persistEntity s)" "truthy (databaseEntity_field s)"
    using assms by (simp_all add: hasEntity_def hasDatabaseEntity_def)
  show ?thesis
    using assms t
    by (auto simp: diffRelationFilter_def entity_set databaseEntity_set get_prop_truthy
        relationDiffers_def diffedKind_def desiredRelationId_def databaseRelationId_def
        nullish_def Let_def)
qed


lemma buildDiffRelationalColumns_set:
  "hasEntity s \<Longrightarrow> hasDatabaseEntity s \<Longrightarrow>
     buildDiffRelationalColumns ext s = Inr (filter (relationDiffers ext s) (allRelations (metadata s)))"
  unfolding buildDiffRelationalColumns_def
  by (rule filterE_total) (simp add: diffRelationFilter_set)

lemma buildDiffColumns_set:
  assumes "hasEntity s" and "hasDatabaseEntity s"
    and "\<And>c. c \<in> set (allColumns (metadata s)) \<Longrightarrow> \<not> embeddedIsNull ext (persistEntity s) c"
  shows "buildDiffColumns ext s = Inr (filter (columnDiffers ext s) (allColumns (metadata s)))"
  unfolding buildDiffColumns_def
  by (rule filterE_total) (simp add: diffColumnFilter_set assms)

lemma buildDiffColumns_Inr:
  assumes "buildDiffColumns ext s = Inr cols" and "c \<in> set (allColumns (metadata s))"
  shows "hasEntity s" and "hasDatabaseEntity s" and "\<not> embeddedIsNull ext (persistEntity s) c"
    and "c \<in> set cols \<longleftrightarrow> columnDiffers ext s c"
proof -
  from assms(1) have all: "\<forall>x \<in> set (allColumns (metadata s)). \<exists>b. diffColumnFilter ext s x = Inr b"
    and cols: "cols = filter (\<lambda>x. diffColumnFilter ext s x = Inr True) (allColumns (metadata s))"
    by (simp_all add: buildDiffColumns_def filterE_Inr_iff)
  from all assms(2) obtain b where b: "diffColumnFilter ext s c = Inr b" by blast
  show e: "hasEntity s"
    using b diffColumnFilter_no_entity [of s ext c] by auto
  show d: "hasDatabaseEntity s"
    using b e diffColumnFilter_no_databaseEntity [of s ext c] by auto
  show n: "\<not> embeddedIsNull ext (persistEntity s) c"
    using b diffColumnFilter_set [OF e d, of ext c] by (auto split: if_splits)
  show "c \<in> set cols \<longleftrightarrow> columnDiffers ext s c"
    using cols assms(2) n diffColumnFilter_set [OF e d, of ext c] by auto
qed

lemma buildDiffColumns_subset:
  "buildDiffColumns ext s = Inr cols \<Longrightarrow> c \<in> set cols \<Longrightarrow> c \<in> set (allColumns (metadata s))"
  by (auto simp: buildDiffColumns_def filterE_Inr_iff)

lemma diffColumnFilter_frame:
  "diffColumnFilter ext (s\<lparr>diffColumns := cs\<rparr>) = diffColumnFilter ext s"
  "diffColumnFilter ext (s\<lparr>diffRelations := rs\<rparr>) = diffColumnFilter ext s"
  by (rule ext, simp add: diffColumnFilter_def entity_def databaseEntity_def
      cong del: if_weak_cong option.case_cong_weak)+

lemma diffRelationFilter_frame:
  "diffRelationFilter ext (s\<lparr>diffColumns := cs\<rparr>) = diffRelationFilter ext s"
  "diffRelationFilter ext (s\<lparr>diffRelations := rs\<rparr>) = diffRelationFilter ext s"
  by (rule ext, simp add: diffRelationFilter_def entity_def databaseEntity_def
      cong del: if_weak_cong)+

lemma buildDiffColumns_frame:
  "buildDiffColumns ext (s\<lparr>diffColumns := cs\<rparr>) = buildDiffColumns ext s"
  "buildDiffColumns ext (s\<lparr>diffRelations := rs\<rparr>) = buildDiffColumns ext s"
  by (simp_all add: buildDiffColumns_def diffColumnFilter_frame)

lemma buildDiffRelationalColumns_frame:
  "buildDiffRelationalColumns ext (s\<lparr>diffColumns := cs\<rparr>) = buildDiffRelationalColumns ext s"
  "buildDiffRelationalColumns ext (s\<lparr>diffRelations := rs\<rparr>) = buildDiffRelationalColumns ext s"
  by (simp_all add: buildDiffRelationalColumns_def diffRelationFilter_frame)


section \<open>The derived flags and the validator\<close>

text \<open>
  C1: \<^verbatim>\<open>validate()\<close> fails if and only if two of the three flags hold together. The
  error is the one of the first check that applies: insert with remove, else update with
  remove, else insert with update, and the three errors are distinct. With at most one
  flag it returns without error. In every case the subject is left as it was.
\<close>

theorem validate_conflict_iff:
  "(fst (validate s) \<noteq> None \<longleftrightarrow>
      (mustBeInserted s \<and> mustBeRemoved s) \<or> (mustBeUpdated s \<and> mustBeRemoved s) \<or>
      (mustBeInserted s \<and> mustBeUpdated s)) \<and>
   (mustBeInserted s \<and> mustBeRemoved s \<longrightarrow>
      fst (validate s) = Some (RemovedAlsoInserted (metadataName (metadata s)))) \<and>
   (mustBeUpdated s \<and> mustBeRemoved s \<and> \<not> mustBeInserted s \<longrightarrow>
      fst (validate s) = Some (RemovedAlsoUpdated (metadataName (metadata s)))) \<and>
   (mustBeInserted s \<and> mustBeUpdated s \<and> \<not> mustBeRemoved s \<longrightarrow>
      fst (validate s) = Some (InsertedAlsoUpdated (metadataName (metadata s)))) \<and>
   (\<not> (mustBeInserted s \<and> mustBeRemoved s) \<and> \<not> (mustBeUpdated s \<and> mustBeRemoved s) \<and>
    \<not> (mustBeInserted s \<and> mustBeUpdated s) \<longrightarrow> validate s = (None, s)) \<and>
   snd (validate s) = s \<and>
   RemovedAlsoInserted n \<noteq> RemovedAlsoUpdated n \<and>
   RemovedAlsoUpdated n \<noteq> InsertedAlsoUpdated n \<and>
   RemovedAlsoInserted n \<noteq> InsertedAlsoUpdated n"
  by (simp add: validate_def)

theorem validate_conflict_iff_witness:
  "fst (validate ((newSubject postMetadata desiredPost JUndefined)
         \<lparr>canBeInserted := True, mustBeRemoved := True\<rparr>))
     = Some (RemovedAlsoInserted ''Post'') \<and>
   fst (validate ((newSubject postMetadata desiredPost storedPost)
         \<lparr>canBeUpdated := True, diffColumns := [favoritesColumn], mustBeRemoved := True\<rparr>))
     = Some (RemovedAlsoUpdated ''Post'') \<and>
   fst (validate ((newSubject postMetadata desiredPost JUndefined)
         \<lparr>canBeInserted := True, canBeUpdated := True, diffColumns := [favoritesColumn]\<rparr>))
     = Some (InsertedAlsoUpdated ''Post'') \<and>
   validate ((newSubject postMetadata desiredPost storedPost)
         \<lparr>canBeUpdated := True, diffColumns := [favoritesColumn]\<rparr>)
     = (None, (newSubject postMetadata desiredPost storedPost)
         \<lparr>canBeUpdated := True, diffColumns := [favoritesColumn]\<rparr>)"
  using
    validate_conflict_iff [of "(newSubject postMetadata desiredPost JUndefined)
         \<lparr>canBeInserted := True, mustBeRemoved := True\<rparr>"]
    validate_conflict_iff [of "(newSubject postMetadata desiredPost storedPost)
         \<lparr>canBeUpdated := True, diffColumns := [favoritesColumn], mustBeRemoved := True\<rparr>"]
    validate_conflict_iff [of "(newSubject postMetadata desiredPost JUndefined)
         \<lparr>canBeInserted := True, canBeUpdated := True, diffColumns := [favoritesColumn]\<rparr>"]
    validate_conflict_iff [of "(newSubject postMetadata desiredPost storedPost)
         \<lparr>canBeUpdated := True, diffColumns := [favoritesColumn]\<rparr>"]
  by (simp add: mustBeInserted_def mustBeUpdated_def hasDatabaseEntity_def newSubject_def
      postMetadata_def storedPost_def)

text \<open>
  C2: \<^verbatim>\<open>mustBeInserted\<close> holds if and only if \<^verbatim>\<open>canBeInserted\<close> holds and the subject
  has no database entity; two subjects that agree on \<^verbatim>\<open>canBeInserted\<close> and on the
  database entity agree on the flag, whatever the rest of their state.
\<close>

theorem mustBeInserted_iff:
  "(mustBeInserted s \<longleftrightarrow> canBeInserted s \<and> \<not> hasDatabaseEntity s) \<and>
   (hasDatabaseEntity s \<longleftrightarrow> truthy (databaseEntity_field s)) \<and>
   (canBeInserted s' = canBeInserted s \<and> databaseEntity_field s' = databaseEntity_field s \<longrightarrow>
      mustBeInserted s' = mustBeInserted s)"
  by (simp add: mustBeInserted_def hasDatabaseEntity_def)

theorem mustBeInserted_iff_witness:
  "mustBeInserted ((newSubject postMetadata desiredPost JUndefined)\<lparr>canBeInserted := True\<rparr>) \<and>
   \<not> mustBeInserted ((newSubject postMetadata desiredPost storedPost)\<lparr>canBeInserted := True\<rparr>) \<and>
   mustBeInserted ((newSubject postMetadata desiredPost JUndefined)
      \<lparr>canBeInserted := True, mustBeRemoved := True, diffColumns := [titleColumn]\<rparr>)"
  using
    mustBeInserted_iff [of "(newSubject postMetadata desiredPost JUndefined)\<lparr>canBeInserted := True\<rparr>"
      "(newSubject postMetadata desiredPost JUndefined)
         \<lparr>canBeInserted := True, mustBeRemoved := True, diffColumns := [titleColumn]\<rparr>"]
    mustBeInserted_iff [of "(newSubject postMetadata desiredPost storedPost)\<lparr>canBeInserted := True\<rparr>"]
  by (simp add: newSubject_def storedPost_def)

text \<open>
  C3: \<^verbatim>\<open>mustBeUpdated\<close> holds if and only if \<^verbatim>\<open>canBeUpdated\<close> holds and at least one of
  \<^verbatim>\<open>diffColumns\<close> and \<^verbatim>\<open>diffRelations\<close> is not empty.
\<close>

theorem mustBeUpdated_iff:
  "mustBeUpdated s \<longleftrightarrow> canBeUpdated s \<and> (diffColumns s \<noteq> [] \<or> diffRelations s \<noteq> [])"
  by (simp add: mustBeUpdated_def)

theorem mustBeUpdated_iff_witness:
  "mustBeUpdated ((newSubject postMetadata desiredPost storedPost)
      \<lparr>canBeUpdated := True, diffRelations := [authorRelation]\<rparr>) \<and>
   \<not> mustBeUpdated ((newSubject postMetadata desiredPost storedPost)\<lparr>canBeUpdated := True\<rparr>) \<and>
   \<not> mustBeUpdated ((newSubject postMetadata desiredPost storedPost)
      \<lparr>diffColumns := [favoritesColumn]\<rparr>)"
  using
    mustBeUpdated_iff [of "(newSubject postMetadata desiredPost storedPost)
      \<lparr>canBeUpdated := True, diffRelations := [authorRelation]\<rparr>"]
    mustBeUpdated_iff [of "(newSubject postMetadata desiredPost storedPost)\<lparr>canBeUpdated := True\<rparr>"]
    mustBeUpdated_iff [of "(newSubject postMetadata desiredPost storedPost)
      \<lparr>diffColumns := [favoritesColumn]\<rparr>"]
  by (simp add: newSubject_def)

section \<open>Frame facts and the sample evaluated\<close>

lemma hasEntity_frame:
  "hasEntity (s\<lparr>databaseEntity_field := d\<rparr>) = hasEntity s"
  "hasEntity (s\<lparr>diffColumns := cs\<rparr>) = hasEntity s"
  "hasEntity (s\<lparr>diffRelations := rs\<rparr>) = hasEntity s"
  by (simp_all add: hasEntity_def)

lemma hasDatabaseEntity_frame:
  "hasDatabaseEntity (s\<lparr>databaseEntity_field := d\<rparr>) = truthy d"
  "hasDatabaseEntity (s\<lparr>diffColumns := cs\<rparr>) = hasDatabaseEntity s"
  "hasDatabaseEntity (s\<lparr>diffRelations := rs\<rparr>) = hasDatabaseEntity s"
  by (simp_all add: hasDatabaseEntity_def)

lemma sample_truthy:
  "truthy desiredPost" "truthy storedPost" "truthy editedPost" "truthy storedEditedPost"
  by (simp_all add: desiredPost_def storedPost_def editedPost_def storedEditedPost_def)

lemmas sample_defs =
  newSubject_def postMetadata_def editedPostMetadata_def desiredPost_def storedPost_def
  editedPost_def storedEditedPost_def sampleExt_def sampleEntityValue_def sampleUtc_def
  sampleLocal_def sampleDate_def sampleTime_def sampleIdMixedMap_def own_def plainColumn_def titleColumn_def
  favoritesColumn_def likesColumn_def versionColumn_def publishedColumn_def
  authorIdColumn_def authorRelation_def commentsRelation_def editorRelation_def
  dayColumn_def hourColumn_def startsColumn_def eventMetadata_def desiredEvent_def
  storedEvent_def nulledPost_def keptAuthorPost_def reviewerRelation_def
  reviewedPostMetadata_def reviewedPost_def storedReviewedPost_def

lemmas model_defs =
  buildDiffColumns_def diffColumnFilter_def plainNotDefined_def embeddedNotDefined_def
  normalizeValues_def buildDiffRelationalColumns_def diffRelationFilter_def entity_def
  databaseEntity_def get_prop_def readProp_def hasRelationWithDbName_def isManyToOne_def
  isOneToOne_def nullish_def

lemma sample_buildDiffColumns:
  "buildDiffColumns sampleExt (newSubject postMetadata desiredPost storedPost) = Inr [favoritesColumn]"
  by (simp add: model_defs sample_defs)

lemma sample_buildDiffRelationalColumns:
  "buildDiffRelationalColumns sampleExt (newSubject postMetadata desiredPost storedPost) = Inr [authorRelation]"
  by (simp add: model_defs sample_defs)

lemma sample_reassigned_buildDiffColumns:
  "buildDiffColumns sampleExt (newSubject postMetadata reassignedPost storedPost) =
     Inr [titleColumn, authorIdColumn]"
  by (simp add: model_defs sample_defs reassignedPost_def)

lemma sample_edited_buildDiffRelationalColumns:
  "buildDiffRelationalColumns sampleExt (newSubject editedPostMetadata editedPost storedEditedPost) =
     Inr [editorRelation]"
  by (simp add: model_defs sample_defs)

lemma sample_edited_buildDiffColumns:
  "buildDiffColumns sampleExt (newSubject editedPostMetadata editedPost storedEditedPost) = Inr []"
  by (simp add: model_defs sample_defs)


lemma sample_nulled_buildDiffColumns:
  "buildDiffColumns sampleExt
     ((newSubject postMetadata nulledPost storedPost)\<lparr>diffColumns := [titleColumn]\<rparr>) = Inl TypeError"
  by (simp add: model_defs sample_defs)

lemma sample_kept_buildDiffColumns:
  "buildDiffColumns sampleExt (newSubject postMetadata keptAuthorPost storedPost) = Inr []"
  by (simp add: model_defs sample_defs)

lemma sample_kept_buildDiffRelationalColumns:
  "buildDiffRelationalColumns sampleExt (newSubject postMetadata keptAuthorPost storedPost) = Inr []"
  by (simp add: model_defs sample_defs)

lemma sample_reassigned_buildDiffRelationalColumns:
  "buildDiffRelationalColumns sampleExt (newSubject postMetadata reassignedPost storedPost) = Inr []"
  by (simp add: model_defs sample_defs reassignedPost_def)

lemma sample_reviewed_buildDiffRelationalColumns:
  "buildDiffRelationalColumns sampleExt
     (newSubject reviewedPostMetadata reviewedPost storedReviewedPost) = Inr [reviewerRelation]"
  by (simp add: model_defs sample_defs)

lemma sample_post_no_null:
  "truthy e \<Longrightarrow> readProp sampleExt e ''counters'' \<noteq> JNull \<Longrightarrow>
   \<forall>c' \<in> set (allColumns (metadata (newSubject postMetadata e storedPost))).
      \<not> embeddedIsNull sampleExt (persistEntity (newSubject postMetadata e storedPost)) c'"
  by (simp add: newSubject_def postMetadata_def embeddedIsNull_def titleColumn_def
      favoritesColumn_def likesColumn_def versionColumn_def publishedColumn_def
      authorIdColumn_def plainColumn_def)

lemma relationDiffers_kind:
  "relationDiffers ext s r \<Longrightarrow> \<not> isOneToMany r \<and> \<not> isManyToMany r \<and> (isOneToOne r \<longrightarrow> isOwning r)"
  by (auto simp: relationDiffers_def diffedKind_def isManyToOne_def isOneToOne_def
      isOneToMany_def isManyToMany_def)


section \<open>The setter\<close>

text \<open>
  What the setter does on a subject that holds a desired entity, for a truthy snapshot:
  it stores the snapshot; it returns exactly when \<^verbatim>\<open>buildDiffColumns()\<close> returns on the
  subject with the snapshot stored (the relation diff always returns there), and then
  \<^verbatim>\<open>diffColumns\<close> and \<^verbatim>\<open>diffRelations\<close> are what the two diffs compute on the subject as
  it then is.
\<close>



lemma set_databaseEntity_recomputes:
  assumes "hasEntity s" and "truthy d"
  shows "databaseEntity_field (snd (set_databaseEntity ext s d)) = d \<and>
         (fst (set_databaseEntity ext s d) = None \<longleftrightarrow>
            (\<exists>cols. buildDiffColumns ext (s\<lparr>databaseEntity_field := d\<rparr>) = Inr cols)) \<and>
         (\<forall>cols. buildDiffColumns ext (s\<lparr>databaseEntity_field := d\<rparr>) = Inr cols \<longrightarrow>
            (\<exists>rels. buildDiffRelationalColumns ext (s\<lparr>databaseEntity_field := d\<rparr>) = Inr rels \<and>
               set_databaseEntity ext s d =
                 (None, s\<lparr>databaseEntity_field := d, diffColumns := cols, diffRelations := rels\<rparr>))) \<and>
         (fst (set_databaseEntity ext s d) = None \<longrightarrow>
            buildDiffColumns ext (snd (set_databaseEntity ext s d)) =
              Inr (diffColumns (snd (set_databaseEntity ext s d))) \<and>
            buildDiffRelationalColumns ext (snd (set_databaseEntity ext s d)) =
              Inr (diffRelations (snd (set_databaseEntity ext s d))))"
proof -
  let ?s1 = "s\<lparr>databaseEntity_field := d\<rparr>"
  have e: "hasEntity ?s1" and db: "hasDatabaseEntity ?s1"
    using assms by (simp_all add: hasEntity_frame hasDatabaseEntity_frame)
  have rel: "\<And>cs. buildDiffRelationalColumns ext (?s1\<lparr>diffColumns := cs\<rparr>) =
      Inr (filter (relationDiffers ext ?s1) (allRelations (metadata ?s1)))"
    using buildDiffRelationalColumns_set [OF e db, of ext]
    by (simp add: buildDiffRelationalColumns_frame)
  show ?thesis
  proof (cases "buildDiffColumns ext ?s1")
    case (Inl err)
    then show ?thesis
      using e assms(2) by (simp add: set_databaseEntity_def Let_def)
  next
    case (Inr cols)
    then show ?thesis
      using e assms(2) rel [of cols] buildDiffRelationalColumns_set [OF e db, of ext]
      by (simp add: set_databaseEntity_def Let_def buildDiffColumns_frame
          buildDiffRelationalColumns_frame)
  qed
qed

lemma set_databaseEntity_recomputes_sample:
  "set_databaseEntity sampleExt (newSubject postMetadata desiredPost JUndefined) storedPost =
     (None, (newSubject postMetadata desiredPost JUndefined)
        \<lparr>databaseEntity_field := storedPost, diffColumns := [favoritesColumn],
         diffRelations := [authorRelation]\<rparr>)"
proof -
  have h1: "hasEntity (newSubject postMetadata desiredPost JUndefined)"
    by (simp add: hasEntity_def newSubject_def sample_truthy)
  have h2: "truthy storedPost" by (simp add: sample_truthy)
  have s1: "(newSubject postMetadata desiredPost JUndefined)\<lparr>databaseEntity_field := storedPost\<rparr>
      = newSubject postMetadata desiredPost storedPost"
    by (simp add: newSubject_def)
  show ?thesis
    using set_databaseEntity_recomputes [OF h1 h2, of sampleExt]
      sample_buildDiffColumns sample_buildDiffRelationalColumns
    by (simp add: s1)
qed

text \<open>
  C4: on every subject that holds a desired entity, assigning a database snapshot stores
  the snapshot and recomputes \<^verbatim>\<open>diffColumns\<close> and \<^verbatim>\<open>diffRelations\<close>. The code does not do
  so on a desired post whose embedded counters are \<^verbatim>\<open>null\<close>: line 344 tests the embedded
  object against \<^verbatim>\<open>undefined\<close> only and then reads inside it, so the setter stores the
  snapshot, throws a \<^verbatim>\<open>TypeError\<close> and leaves \<^verbatim>\<open>diffColumns\<close> at its previous value,
  which is not what \<^verbatim>\<open>buildDiffColumns()\<close> computes on the subject afterwards.
\<close>

theorem set_databaseEntity_null_embedded:
  "hasEntity ((newSubject postMetadata nulledPost JUndefined)\<lparr>diffColumns := [titleColumn]\<rparr>) \<and>
   truthy storedPost \<and>
   set_databaseEntity sampleExt
      ((newSubject postMetadata nulledPost JUndefined)\<lparr>diffColumns := [titleColumn]\<rparr>) storedPost =
     (Some TypeError,
      (newSubject postMetadata nulledPost JUndefined)
        \<lparr>diffColumns := [titleColumn], databaseEntity_field := storedPost\<rparr>) \<and>
   diffColumns (snd (set_databaseEntity sampleExt
      ((newSubject postMetadata nulledPost JUndefined)\<lparr>diffColumns := [titleColumn]\<rparr>) storedPost))
     = [titleColumn] \<and>
   buildDiffColumns sampleExt (snd (set_databaseEntity sampleExt
      ((newSubject postMetadata nulledPost JUndefined)\<lparr>diffColumns := [titleColumn]\<rparr>) storedPost))
     = Inl TypeError"
proof -
  have s1: "(newSubject postMetadata nulledPost JUndefined)
      \<lparr>diffColumns := [titleColumn], databaseEntity_field := storedPost\<rparr> =
      (newSubject postMetadata nulledPost storedPost)\<lparr>diffColumns := [titleColumn]\<rparr>"
    by (simp add: newSubject_def)
  have h: "hasEntity ((newSubject postMetadata nulledPost storedPost)\<lparr>diffColumns := [titleColumn]\<rparr>)"
    "hasEntity ((newSubject postMetadata nulledPost JUndefined)\<lparr>diffColumns := [titleColumn]\<rparr>)"
    by (simp_all add: hasEntity_def newSubject_def nulledPost_def)
  have set: "set_databaseEntity sampleExt
      ((newSubject postMetadata nulledPost JUndefined)\<lparr>diffColumns := [titleColumn]\<rparr>) storedPost =
     (Some TypeError,
      (newSubject postMetadata nulledPost JUndefined)
        \<lparr>diffColumns := [titleColumn], databaseEntity_field := storedPost\<rparr>)"
    using h sample_nulled_buildDiffColumns
    by (simp add: set_databaseEntity_def Let_def s1 sample_truthy)
  show ?thesis
    using h(2) sample_nulled_buildDiffColumns
    by (simp add: set s1 sample_truthy)
qed

text \<open>
  C10: on a subject that holds no desired entity, assigning a database snapshot stores
  it, does not throw and changes no other field; \<^verbatim>\<open>diffColumns\<close> and \<^verbatim>\<open>diffRelations\<close>
  keep their values, and \<^verbatim>\<open>hasDatabaseEntity\<close> is true afterwards for a snapshot that is an
  object (any truthy value).
\<close>

theorem set_databaseEntity_without_entity:
  assumes "\<not> hasEntity s"
  shows "set_databaseEntity ext s d = (None, s\<lparr>databaseEntity_field := d\<rparr>) \<and>
         (truthy d \<longrightarrow> hasDatabaseEntity (snd (set_databaseEntity ext s d))) \<and>
         diffColumns (snd (set_databaseEntity ext s d)) = diffColumns s \<and>
         diffRelations (snd (set_databaseEntity ext s d)) = diffRelations s"
  using assms by (simp add: set_databaseEntity_def Let_def hasEntity_def hasDatabaseEntity_def)

theorem set_databaseEntity_without_entity_witness:
  "set_databaseEntity sampleExt
      ((newSubject postMetadata JUndefined JUndefined)\<lparr>diffColumns := [titleColumn]\<rparr>) storedPost =
     (None, (newSubject postMetadata JUndefined JUndefined)
        \<lparr>diffColumns := [titleColumn], databaseEntity_field := storedPost\<rparr>) \<and>
   hasDatabaseEntity (snd (set_databaseEntity sampleExt
      ((newSubject postMetadata JUndefined JUndefined)\<lparr>diffColumns := [titleColumn]\<rparr>) storedPost))"
proof -
  have h: "\<not> hasEntity ((newSubject postMetadata JUndefined JUndefined)\<lparr>diffColumns := [titleColumn]\<rparr>)"
    by (simp add: hasEntity_def newSubject_def)
  show ?thesis
    using set_databaseEntity_without_entity [OF h, of sampleExt storedPost] sample_truthy(2)
    by (simp add: hasDatabaseEntity_def)
qed

section \<open>The column diff: what is never included\<close>

text \<open>
  C5: whenever \<^verbatim>\<open>buildDiffColumns\<close> returns a list, both entities are set and no column
  of the list is virtual, parent-id, discriminator, update-date, version or create-date;
  a column of the list that is not embedded has \<^verbatim>\<open>entity[propertyName]\<close> defined, and an
  embedded one has \<^verbatim>\<open>entity[embeddedProperty]\<close> defined and
  \<^verbatim>\<open>entity[embeddedProperty][propertyName]\<close> readable and defined. The values of the
  two sides play no part in this.
\<close>

theorem buildDiffColumns_never_includes:
  assumes "buildDiffColumns ext s = Inr cols" and "c \<in> set cols"
  shows "hasEntity s \<and> hasDatabaseEntity s \<and>
         \<not> isVirtual c \<and> \<not> isParentId c \<and> \<not> isDiscriminator c \<and>
         \<not> isUpdateDate c \<and> \<not> isVersion c \<and> \<not> isCreateDate c \<and>
         (\<not> isInEmbedded c \<longrightarrow> readProp ext (persistEntity s) (propertyName c) \<noteq> JUndefined) \<and>
         (isInEmbedded c \<longrightarrow>
            readProp ext (persistEntity s) (embeddedProperty c) \<noteq> JUndefined \<and>
            (\<exists>v. get_prop ext (readProp ext (persistEntity s) (embeddedProperty c)) (propertyName c)
                   = Inr v \<and> v \<noteq> JUndefined))"
proof -
  have mem: "c \<in> set (allColumns (metadata s))"
    using assms by (rule buildDiffColumns_subset)
  note facts = buildDiffColumns_Inr [OF assms(1) mem]
  from facts(4) assms(2) have d: "columnDiffers ext s c" by simp
  then have v: "valueDefined ext (persistEntity s) c" and m: "\<not> systemManaged c"
    by (simp_all add: columnDiffers_def)
  from v have emb: "isInEmbedded c \<longrightarrow>
      readProp ext (persistEntity s) (embeddedProperty c) \<noteq> JUndefined \<and>
      (\<exists>v. get_prop ext (readProp ext (persistEntity s) (embeddedProperty c)) (propertyName c)
             = Inr v \<and> v \<noteq> JUndefined)"
    by (simp add: valueDefined_def get_prop_def)
  from v have plain: "\<not> isInEmbedded c \<longrightarrow>
      readProp ext (persistEntity s) (propertyName c) \<noteq> JUndefined"
    by (simp add: valueDefined_def)
  from m have flags: "\<not> isVirtual c \<and> \<not> isParentId c \<and> \<not> isDiscriminator c \<and>
         \<not> isUpdateDate c \<and> \<not> isVersion c \<and> \<not> isCreateDate c"
    by (simp add: systemManaged_def)
  show ?thesis using facts(1,2) flags plain emb by blast
qed

theorem buildDiffColumns_never_includes_witness:
  "buildDiffColumns sampleExt (newSubject postMetadata desiredPost storedPost) = Inr [favoritesColumn] \<and>
   isInEmbedded favoritesColumn \<and> \<not> isVersion favoritesColumn \<and>
   readProp sampleExt desiredPost (embeddedProperty favoritesColumn) \<noteq> JUndefined \<and>
   (\<exists>v. get_prop sampleExt (readProp sampleExt desiredPost (embeddedProperty favoritesColumn))
          (propertyName favoritesColumn) = Inr v \<and> v \<noteq> JUndefined)"
proof -
  have h2: "favoritesColumn \<in> set [favoritesColumn]" by simp
  have emb: "isInEmbedded favoritesColumn" by (simp add: favoritesColumn_def)
  have p: "persistEntity (newSubject postMetadata desiredPost storedPost) = desiredPost"
    by (simp add: newSubject_def)
  show ?thesis
    using buildDiffColumns_never_includes [OF sample_buildDiffColumns h2] emb
      sample_buildDiffColumns
    by (simp add: p)
qed

section \<open>The column diff: columns backed by a relation\<close>

text \<open>
  C6, as amended: let both entities be set and no embedded object be \<^verbatim>\<open>null\<close> on the
  desired entity, so that both diffs return, and let a column that is not embedded bear
  the database name of a relation. When the desired entity holds any value other than
  \<^verbatim>\<open>null\<close> and \<^verbatim>\<open>undefined\<close> at the property of that relation (a nested object or a
  bare foreign-key id alike), the column is not in the column diff, and the relation is
  in the relation diff if and only if it is a relation of the metadata that passes the
  relation diff (\<open>relationDiffers\<close>: many-to-one or owning one-to-one, an identifier on
  the desired side that is not \<^verbatim>\<open>undefined\<close>, identifiers not both \<^verbatim>\<open>null\<close> or
  \<^verbatim>\<open>undefined\<close> and not strictly equal); so the two are never both reported in that
  case. When the entity holds \<^verbatim>\<open>null\<close> or \<^verbatim>\<open>undefined\<close> there, the column is in the
  column diff if and only if its value is defined on the entity, it is not system-managed
  and the normalized values differ.
\<close>

theorem relation_column_excluded:
  assumes "hasEntity s" and "hasDatabaseEntity s"
    and "\<forall>c' \<in> set (allColumns (metadata s)). \<not> embeddedIsNull ext (persistEntity s) c'"
    and "c \<in> set (allColumns (metadata s))" and "\<not> isInEmbedded c"
    and "findRelationWithDbName ext (metadata s) (propertyName c) = Some r"
  shows "\<exists>cols rels.
           buildDiffColumns ext s = Inr cols \<and> buildDiffRelationalColumns ext s = Inr rels \<and>
           (\<not> nullish (readProp ext (persistEntity s) (relationPropertyName r)) \<longrightarrow>
              c \<notin> set cols \<and>
              (r \<in> set rels \<longleftrightarrow>
                 r \<in> set (allRelations (metadata s)) \<and> relationDiffers ext s r)) \<and>
           (nullish (readProp ext (persistEntity s) (relationPropertyName r)) \<longrightarrow>
              (c \<in> set cols \<longleftrightarrow>
                 readProp ext (persistEntity s) (propertyName c) \<noteq> JUndefined \<and>
                 \<not> systemManaged c \<and>
                 \<not> normalizedEqual ext c (persistEntity s) (databaseEntity_field s)))"
proof -
  let ?cols = "filter (columnDiffers ext s) (allColumns (metadata s))"
  let ?rels = "filter (relationDiffers ext s) (allRelations (metadata s))"
  have cols: "buildDiffColumns ext s = Inr ?cols"
    using assms(1,2,3) by (simp add: buildDiffColumns_set)
  have rels: "buildDiffRelationalColumns ext s = Inr ?rels"
    using assms(1,2) by (rule buildDiffRelationalColumns_set)
  have held: "\<not> nullish (readProp ext (persistEntity s) (relationPropertyName r)) \<longrightarrow>
      c \<notin> set ?cols"
    using assms(4,5,6) by (simp add: columnDiffers_def relationValueHeld_def)
  have free: "nullish (readProp ext (persistEntity s) (relationPropertyName r)) \<longrightarrow>
      (c \<in> set ?cols \<longleftrightarrow>
         readProp ext (persistEntity s) (propertyName c) \<noteq> JUndefined \<and>
         \<not> systemManaged c \<and>
         \<not> normalizedEqual ext c (persistEntity s) (databaseEntity_field s))"
    using assms(4,5,6) by (simp add: columnDiffers_def relationValueHeld_def valueDefined_def)
  have rel: "r \<in> set ?rels \<longleftrightarrow> r \<in> set (allRelations (metadata s)) \<and> relationDiffers ext s r"
    by simp
  from cols rels held free rel show ?thesis by blast
qed

theorem relation_column_excluded_witness:
  "buildDiffColumns sampleExt (newSubject postMetadata desiredPost storedPost) = Inr [favoritesColumn] \<and>
   buildDiffRelationalColumns sampleExt (newSubject postMetadata desiredPost storedPost) =
     Inr [authorRelation] \<and>
   authorIdColumn \<notin> set [favoritesColumn] \<and>
   relationDiffers sampleExt (newSubject postMetadata desiredPost storedPost) authorRelation \<and>
   buildDiffColumns sampleExt (newSubject postMetadata reassignedPost storedPost) =
     Inr [titleColumn, authorIdColumn] \<and>
   readProp sampleExt reassignedPost (propertyName authorIdColumn) \<noteq> JUndefined \<and>
   \<not> systemManaged authorIdColumn \<and>
   \<not> normalizedEqual sampleExt authorIdColumn reassignedPost storedPost"
proof -
  let ?s = "newSubject postMetadata desiredPost storedPost"
  let ?t = "newSubject postMetadata reassignedPost storedPost"
  have e: "hasEntity ?s" "hasEntity ?t"
    by (simp_all add: hasEntity_def newSubject_def desiredPost_def reassignedPost_def)
  have d: "hasDatabaseEntity ?s" "hasDatabaseEntity ?t"
    by (simp_all add: hasDatabaseEntity_def newSubject_def sample_truthy)
  have n: "\<forall>c' \<in> set (allColumns (metadata ?s)). \<not> embeddedIsNull sampleExt (persistEntity ?s) c'"
    by (rule sample_post_no_null) (simp_all add: desiredPost_def readProp_def)
  have n': "\<forall>c' \<in> set (allColumns (metadata ?t)). \<not> embeddedIsNull sampleExt (persistEntity ?t) c'"
    by (rule sample_post_no_null) (simp_all add: reassignedPost_def readProp_def sampleExt_def)
  have mem: "authorIdColumn \<in> set (allColumns (metadata (newSubject postMetadata x storedPost)))" for x
    by (simp add: newSubject_def postMetadata_def)
  have emb: "\<not> isInEmbedded authorIdColumn" by (simp add: authorIdColumn_def plainColumn_def)
  have rel: "findRelationWithDbName sampleExt (metadata (newSubject postMetadata x storedPost))
      (propertyName authorIdColumn) = Some authorRelation" for x
    by (simp add: sample_defs)
  have held: "\<not> nullish (readProp sampleExt desiredPost (relationPropertyName authorRelation))"
    by (simp add: sample_defs readProp_def nullish_def)
  have none: "nullish (readProp sampleExt reassignedPost (relationPropertyName authorRelation))"
    by (simp add: sample_defs reassignedPost_def readProp_def nullish_def)
  have p: "persistEntity (newSubject postMetadata x storedPost) = x"
    "databaseEntity_field (newSubject postMetadata x storedPost) = storedPost"
    "allRelations (metadata (newSubject postMetadata x storedPost)) = [authorRelation, commentsRelation]" for x
    by (simp_all add: newSubject_def postMetadata_def)
  from relation_column_excluded [OF e(1) d(1) n mem emb rel]
  have 1: "authorIdColumn \<notin> set [favoritesColumn] \<and>
      (authorRelation \<in> set [authorRelation] \<longleftrightarrow>
         authorRelation \<in> set [authorRelation, commentsRelation] \<and> relationDiffers sampleExt ?s authorRelation)"
    using held by (simp add: p sample_buildDiffColumns sample_buildDiffRelationalColumns)
  from relation_column_excluded [OF e(2) d(2) n' mem emb rel]
  have 2: "authorIdColumn \<in> set [titleColumn, authorIdColumn] \<longleftrightarrow>
         readProp sampleExt reassignedPost (propertyName authorIdColumn) \<noteq> JUndefined \<and>
         \<not> systemManaged authorIdColumn \<and>
         \<not> normalizedEqual sampleExt authorIdColumn reassignedPost storedPost"
    using none by (simp add: p sample_reassigned_buildDiffColumns)
  from 1 2 show ?thesis
    by (simp add: sample_buildDiffColumns sample_buildDiffRelationalColumns
        sample_reassigned_buildDiffColumns)
qed

text \<open>
  The claim C6 as stated fails on the sample in two ways. The desired post holds the bare
  id 5, not an object, at \<^verbatim>\<open>author\<close>; the column \<^verbatim>\<open>authorId\<close> is defined, is not
  system-managed and differs from the stored value (7 against 3), and yet it is left out
  of the column diff. And the post that holds the stored author (id 3) as a nested object
  while its \<^verbatim>\<open>authorId\<close> is 7 against the stored 3 has the column left out and nothing
  in the relation diff either: the change surfaces in neither.
\<close>

theorem relation_column_bare_id_counterexample:
  "buildDiffColumns sampleExt (newSubject postMetadata desiredPost storedPost) = Inr [favoritesColumn] \<and>
   authorIdColumn \<in> set (allColumns postMetadata) \<and>
   authorIdColumn \<notin> set [favoritesColumn] \<and>
   \<not> isInEmbedded authorIdColumn \<and>
   findRelationWithDbName sampleExt postMetadata (propertyName authorIdColumn) = Some authorRelation \<and>
   readProp sampleExt desiredPost (relationPropertyName authorRelation) = JNum 5 \<and>
   \<not> instanceofObject sampleExt (readProp sampleExt desiredPost (relationPropertyName authorRelation)) \<and>
   valueDefined sampleExt desiredPost authorIdColumn \<and>
   \<not> systemManaged authorIdColumn \<and>
   \<not> normalizedEqual sampleExt authorIdColumn desiredPost storedPost \<and>
   readProp sampleExt keptAuthorPost (relationPropertyName authorRelation) = JObj 51 [(''id'', JNum 3)] \<and>
   instanceofObject sampleExt (readProp sampleExt keptAuthorPost (relationPropertyName authorRelation)) \<and>
   valueDefined sampleExt keptAuthorPost authorIdColumn \<and>
   \<not> normalizedEqual sampleExt authorIdColumn keptAuthorPost storedPost \<and>
   buildDiffColumns sampleExt (newSubject postMetadata keptAuthorPost storedPost) = Inr [] \<and>
   buildDiffRelationalColumns sampleExt (newSubject postMetadata keptAuthorPost storedPost) = Inr []"
  by (simp add: sample_buildDiffColumns sample_kept_buildDiffColumns
        sample_kept_buildDiffRelationalColumns)
     (simp add: sample_defs readProp_def valueDefined_def systemManaged_def
        normalizedEqual_def normalizeValues_def)

section \<open>The relation diff: which relations are included\<close>

text \<open>
  C7, as amended: with both entities set, \<^verbatim>\<open>buildDiffRelationalColumns\<close> returns, and a
  relation is in the result if and only if it is one of the relations of the metadata,
  it is many-to-one or an owning one-to-one, its identifier on the desired side (the
  mixed identifier of a nested object, the raw value otherwise) is not \<^verbatim>\<open>undefined\<close>,
  the identifiers of the two sides are not both \<^verbatim>\<open>null\<close> or \<^verbatim>\<open>undefined\<close>, and the two
  identifiers are not strictly equal (\<^verbatim>\<open>!==\<close>: primitives are compared by value,
  objects, so composite identifiers, by reference). No to-many relation and no
  non-owning one-to-one relation is in the result; no non-owning relation at all is in
  it when every many-to-one relation of the metadata is owning, the filter not testing
  \<^verbatim>\<open>isOwning\<close> on a many-to-one relation.
\<close>

theorem buildDiffRelationalColumns_iff:
  assumes "hasEntity s" and "hasDatabaseEntity s"
  shows "\<exists>rels. buildDiffRelationalColumns ext s = Inr rels \<and>
           (\<forall>r. r \<in> set rels \<longleftrightarrow>
              r \<in> set (allRelations (metadata s)) \<and>
              (isManyToOne r \<or> (isOneToOne r \<and> isOwning r)) \<and>
              desiredRelationId ext (persistEntity s) r \<noteq> JUndefined \<and>
              \<not> (nullish (desiredRelationId ext (persistEntity s) r) \<and>
                 nullish (databaseRelationId ext (databaseEntity_field s) r)) \<and>
              \<not> strict_eq (desiredRelationId ext (persistEntity s) r)
                          (databaseRelationId ext (databaseEntity_field s) r)) \<and>
           (\<forall>r \<in> set rels. \<not> isOneToMany r \<and> \<not> isManyToMany r \<and> (isOneToOne r \<longrightarrow> isOwning r)) \<and>
           ((\<forall>r \<in> set (allRelations (metadata s)). isManyToOne r \<longrightarrow> isOwning r) \<longrightarrow>
              (\<forall>r \<in> set rels. isOwning r))"
proof -
  let ?rels = "filter (relationDiffers ext s) (allRelations (metadata s))"
  have 1: "buildDiffRelationalColumns ext s = Inr ?rels"
    using assms by (rule buildDiffRelationalColumns_set)
  have 2: "r \<in> set ?rels \<longleftrightarrow>
              r \<in> set (allRelations (metadata s)) \<and>
              (isManyToOne r \<or> (isOneToOne r \<and> isOwning r)) \<and>
              desiredRelationId ext (persistEntity s) r \<noteq> JUndefined \<and>
              \<not> (nullish (desiredRelationId ext (persistEntity s) r) \<and>
                 nullish (databaseRelationId ext (databaseEntity_field s) r)) \<and>
              \<not> strict_eq (desiredRelationId ext (persistEntity s) r)
                          (databaseRelationId ext (databaseEntity_field s) r)" for r
    by (simp add: relationDiffers_def diffedKind_def)
  have 3: "\<forall>r \<in> set ?rels. \<not> isOneToMany r \<and> \<not> isManyToMany r \<and> (isOneToOne r \<longrightarrow> isOwning r)"
    using relationDiffers_kind by auto
  have 4: "(\<forall>r \<in> set (allRelations (metadata s)). isManyToOne r \<longrightarrow> isOwning r) \<longrightarrow>
              (\<forall>r \<in> set ?rels. isOwning r)"
    by (auto simp: relationDiffers_def diffedKind_def)
  from 1 2 3 4 show ?thesis by blast
qed

theorem buildDiffRelationalColumns_iff_witness:
  "buildDiffRelationalColumns sampleExt (newSubject postMetadata desiredPost storedPost) =
     Inr [authorRelation] \<and>
   desiredRelationId sampleExt desiredPost authorRelation \<noteq> JUndefined \<and>
   \<not> strict_eq (desiredRelationId sampleExt desiredPost authorRelation)
               (databaseRelationId sampleExt storedPost authorRelation) \<and>
   \<not> isOneToMany authorRelation \<and> isOwning authorRelation"
proof -
  let ?s = "newSubject postMetadata desiredPost storedPost"
  have h1: "hasEntity ?s"
    by (simp add: hasEntity_def newSubject_def sample_truthy)
  have h2: "hasDatabaseEntity ?s"
    by (simp add: hasDatabaseEntity_def newSubject_def sample_truthy)
  have p: "persistEntity ?s = desiredPost" "databaseEntity_field ?s = storedPost"
    by (simp_all add: newSubject_def)
  have own: "\<forall>r \<in> set (allRelations (metadata ?s)). isManyToOne r \<longrightarrow> isOwning r"
    by (simp add: newSubject_def postMetadata_def authorRelation_def commentsRelation_def
        isManyToOne_def)
  from buildDiffRelationalColumns_iff [OF h1 h2, of sampleExt]
  obtain rels where
    r: "buildDiffRelationalColumns sampleExt ?s = Inr rels"
    and iff: "\<And>r. r \<in> set rels \<longleftrightarrow>
              r \<in> set (allRelations (metadata ?s)) \<and>
              (isManyToOne r \<or> (isOneToOne r \<and> isOwning r)) \<and>
              desiredRelationId sampleExt desiredPost r \<noteq> JUndefined \<and>
              \<not> (nullish (desiredRelationId sampleExt desiredPost r) \<and>
                 nullish (databaseRelationId sampleExt storedPost r)) \<and>
              \<not> strict_eq (desiredRelationId sampleExt desiredPost r)
                          (databaseRelationId sampleExt storedPost r)"
    and kinds: "\<forall>r \<in> set rels. \<not> isOneToMany r \<and> \<not> isManyToMany r \<and> (isOneToOne r \<longrightarrow> isOwning r)"
    and owning: "(\<forall>r \<in> set (allRelations (metadata ?s)). isManyToOne r \<longrightarrow> isOwning r) \<longrightarrow>
              (\<forall>r \<in> set rels. isOwning r)"
    unfolding p by blast
  from r sample_buildDiffRelationalColumns have rels: "rels = [authorRelation]" by simp
  have m: "authorRelation \<in> set rels" by (simp add: rels)
  from iff [of authorRelation] m kinds owning own r show ?thesis by (simp add: rels)
qed

text \<open>
  The claim C7 as stated fails in two ways. With composite identifiers compared by value:
  on the edited post the identifier built from the nested editor and the one stored in
  the database hold the same two names, and the relation is in the result all the same.
  With non-owning relations never in the result: a many-to-one relation flagged as not
  owning, whose identifier changed from 2 to 8, is in the result.
\<close>

theorem composite_identifier_counterexample:
  "buildDiffRelationalColumns sampleExt (newSubject editedPostMetadata editedPost storedEditedPost) =
     Inr [editorRelation] \<and>
   desiredRelationId sampleExt editedPost editorRelation =
     JObj 900 [(''firstName'', JStr ''Ada''), (''lastName'', JStr ''Lovelace'')] \<and>
   databaseRelationId sampleExt storedEditedPost editorRelation =
     JObj 13 [(''firstName'', JStr ''Ada''), (''lastName'', JStr ''Lovelace'')] \<and>
   spec_value_eq (desiredRelationId sampleExt editedPost editorRelation)
                 (databaseRelationId sampleExt storedEditedPost editorRelation) \<and>
   buildDiffRelationalColumns sampleExt
     (newSubject reviewedPostMetadata reviewedPost storedReviewedPost) = Inr [reviewerRelation] \<and>
   isManyToOne reviewerRelation \<and> \<not> isOwning reviewerRelation"
  by (simp add: sample_edited_buildDiffRelationalColumns sample_reviewed_buildDiffRelationalColumns)
     (simp add: sample_defs desiredRelationId_def databaseRelationId_def readProp_def
        isManyToOne_def)

section \<open>The column diff: dates and times\<close>



section \<open>Equal entities\<close>

text \<open>
  C9, as amended: let a subject hold a desired entity on which no embedded object is
  \<^verbatim>\<open>null\<close>, and let a database snapshot be such that on every column that is defined on
  the entity and not system-managed the normalized values of the two sides are strictly
  equal (\<^verbatim>\<open>===\<close>: objects by reference), and on every many-to-one and owning one-to-one
  relation the identifiers of the two sides are strictly equal. Then
  \<^verbatim>\<open>buildDiffColumns\<close> and \<^verbatim>\<open>buildDiffRelationalColumns\<close> both return the empty list,
  the setter stores two empty diffs, and \<^verbatim>\<open>mustBeUpdated\<close> is false afterwards whatever
  \<^verbatim>\<open>canBeUpdated\<close> is.
\<close>

theorem strictly_equal_entities_no_diff:
  assumes "hasEntity s" and "truthy d"
    and "\<forall>c \<in> set (allColumns (metadata s)). \<not> embeddedIsNull ext (persistEntity s) c"
    and "\<forall>c \<in> set (allColumns (metadata s)).
           valueDefined ext (persistEntity s) c \<and> \<not> systemManaged c \<longrightarrow>
           normalizedEqual ext c (persistEntity s) d"
    and "\<forall>r \<in> set (allRelations (metadata s)).
           diffedKind r \<longrightarrow>
           strict_eq (desiredRelationId ext (persistEntity s) r) (databaseRelationId ext d r)"
  shows "buildDiffColumns ext (s\<lparr>databaseEntity_field := d\<rparr>) = Inr [] \<and>
         buildDiffRelationalColumns ext (s\<lparr>databaseEntity_field := d\<rparr>) = Inr [] \<and>
         set_databaseEntity ext s d =
           (None, s\<lparr>databaseEntity_field := d, diffColumns := [], diffRelations := []\<rparr>) \<and>
         \<not> mustBeUpdated ((snd (set_databaseEntity ext s d))\<lparr>canBeUpdated := b\<rparr>)"
proof -
  let ?s1 = "s\<lparr>databaseEntity_field := d\<rparr>"
  have e: "hasEntity ?s1" and db: "hasDatabaseEntity ?s1"
    using assms(1,2) by (simp_all add: hasEntity_frame hasDatabaseEntity_frame)
  have nocol: "filter (columnDiffers ext ?s1) (allColumns (metadata ?s1)) = []"
    using assms(4) by (auto simp: filter_empty_conv columnDiffers_def)
  have norel: "filter (relationDiffers ext ?s1) (allRelations (metadata ?s1)) = []"
    using assms(5) by (auto simp: filter_empty_conv relationDiffers_def)
  have cols: "buildDiffColumns ext ?s1 = Inr []"
    using buildDiffColumns_set [OF e db, of ext] assms(3) nocol by simp
  have rels: "buildDiffRelationalColumns ext ?s1 = Inr []"
    using buildDiffRelationalColumns_set [OF e db, of ext] norel by simp
  have set: "set_databaseEntity ext s d =
      (None, s\<lparr>databaseEntity_field := d, diffColumns := [], diffRelations := []\<rparr>)"
    using e assms(2) cols rels
    by (simp add: set_databaseEntity_def Let_def buildDiffRelationalColumns_frame)
  show ?thesis
    using cols rels set by (simp add: mustBeUpdated_def)
qed

theorem strictly_equal_entities_no_diff_witness:
  "set_databaseEntity sampleExt (newSubject postMetadata unchangedPost JUndefined) storedPost =
     (None, (newSubject postMetadata unchangedPost JUndefined)
        \<lparr>databaseEntity_field := storedPost, diffColumns := [], diffRelations := []\<rparr>) \<and>
   \<not> mustBeUpdated ((snd (set_databaseEntity sampleExt
        (newSubject postMetadata unchangedPost JUndefined) storedPost))\<lparr>canBeUpdated := True\<rparr>)"
proof -
  let ?s = "newSubject postMetadata unchangedPost JUndefined"
  have h1: "hasEntity ?s" by (simp add: hasEntity_def newSubject_def unchangedPost_def)
  have h2: "truthy storedPost" by (simp add: sample_truthy)
  have h3: "\<forall>c \<in> set (allColumns (metadata ?s)). \<not> embeddedIsNull sampleExt (persistEntity ?s) c"
    by (simp add: sample_defs unchangedPost_def embeddedIsNull_def readProp_def)
  have h4: "\<forall>c \<in> set (allColumns (metadata ?s)).
           valueDefined sampleExt (persistEntity ?s) c \<and> \<not> systemManaged c \<longrightarrow>
           normalizedEqual sampleExt c (persistEntity ?s) storedPost"
    by (simp add: sample_defs unchangedPost_def valueDefined_def systemManaged_def
        normalizedEqual_def normalizeValues_def readProp_def nullish_def)
  have h5: "\<forall>r \<in> set (allRelations (metadata ?s)).
           diffedKind r \<longrightarrow>
           strict_eq (desiredRelationId sampleExt (persistEntity ?s) r)
                     (databaseRelationId sampleExt storedPost r)"
    by (simp add: sample_defs unchangedPost_def diffedKind_def isManyToOne_def isOneToOne_def
        desiredRelationId_def databaseRelationId_def readProp_def)
  show ?thesis
    using strictly_equal_entities_no_diff [OF h1 h2 h3 h4 h5, of True] by blast
qed

text \<open>
  The claim C9 as stated, with equality by value, fails on the edited post: its only
  column has equal values on both sides and the identifiers of its editor are equal by
  value, and yet the setter stores the editor relation as a difference and
  \<^verbatim>\<open>mustBeUpdated\<close> holds.
\<close>

theorem value_equal_entities_counterexample:
  "normalizedEqual sampleExt titleColumn editedPost storedEditedPost \<and>
   spec_value_eq (desiredRelationId sampleExt editedPost editorRelation)
                 (databaseRelationId sampleExt storedEditedPost editorRelation) \<and>
   set_databaseEntity sampleExt
      ((newSubject editedPostMetadata editedPost JUndefined)\<lparr>canBeUpdated := True\<rparr>)
      storedEditedPost =
     (None, (newSubject editedPostMetadata editedPost JUndefined)
        \<lparr>canBeUpdated := True, databaseEntity_field := storedEditedPost,
         diffColumns := [], diffRelations := [editorRelation]\<rparr>) \<and>
   mustBeUpdated (snd (set_databaseEntity sampleExt
      ((newSubject editedPostMetadata editedPost JUndefined)\<lparr>canBeUpdated := True\<rparr>)
      storedEditedPost))"
proof -
  have s1: "(newSubject editedPostMetadata editedPost JUndefined)
      \<lparr>canBeUpdated := True, databaseEntity_field := storedEditedPost\<rparr> =
      (newSubject editedPostMetadata editedPost storedEditedPost)\<lparr>canBeUpdated := True\<rparr>"
    by (simp add: newSubject_def)
  have c: "buildDiffColumns sampleExt
      ((newSubject editedPostMetadata editedPost storedEditedPost)\<lparr>canBeUpdated := True\<rparr>) = Inr []"
    by (simp add: model_defs sample_defs)
  have r: "buildDiffRelationalColumns sampleExt
      ((newSubject editedPostMetadata editedPost storedEditedPost)
         \<lparr>canBeUpdated := True, diffColumns := []\<rparr>) = Inr [editorRelation]"
    by (simp add: model_defs sample_defs)
  have set: "set_databaseEntity sampleExt
      ((newSubject editedPostMetadata editedPost JUndefined)\<lparr>canBeUpdated := True\<rparr>)
      storedEditedPost =
     (None, (newSubject editedPostMetadata editedPost JUndefined)
        \<lparr>canBeUpdated := True, databaseEntity_field := storedEditedPost,
         diffColumns := [], diffRelations := [editorRelation]\<rparr>)"
    using c r
    by (simp add: set_databaseEntity_def Let_def s1 hasEntity_def sample_truthy)
       (simp add: newSubject_def sample_truthy)
  have n: "normalizedEqual sampleExt titleColumn editedPost storedEditedPost"
    by (simp add: sample_defs normalizedEqual_def normalizeValues_def)
  have v: "spec_value_eq (desiredRelationId sampleExt editedPost editorRelation)
                 (databaseRelationId sampleExt storedEditedPost editorRelation)"
    by (simp add: sample_defs desiredRelationId_def databaseRelationId_def readProp_def)
  show ?thesis
    using n v set by (simp add: mustBeUpdated_def)
qed

end
